theory Spec2Isabelle
  imports Complex_Main "HOL-Library.AList"
begin

section \<open>The library database manager (src/app/database.py)\<close>

text \<open>
  \<^verbatim>\<open>DatabaseManager\<close> talks to a PostgreSQL store through a psycopg2 connection opened
  with \<^verbatim>\<open>autocommit = True\<close>. The embedding has two layers.

  \<^item> The store: a record of the five tables of \<^verbatim>\<open>create_tables\<close> (lines 40-80), each a
    list of rows in insertion order, and the three \<^verbatim>\<open>SERIAL\<close> sequences. Every
    \<^verbatim>\<open>cursor.execute\<close> of the source is one function on the store; a statement that
    PostgreSQL rejects returns \<open>Inl\<close> of the exception psycopg2 raises. Under autocommit
    every \<^verbatim>\<open>execute\<close> call is a transaction of its own, so the statements run before a
    failing one keep their effect.
  \<^item> The methods: functions on the manager (its \<^verbatim>\<open>connection\<close> attribute and what it has
    printed), each with the \<^verbatim>\<open>try\<close>/\<^verbatim>\<open>except Exception\<close> of the source written out.

  The schema's constraints are part of the statements: the column types of the values a
  caller supplies (\<^verbatim>\<open>INTEGER\<close>, \<^verbatim>\<open>SMALLINT\<close>, \<^verbatim>\<open>VARCHAR(n)\<close>, \<^verbatim>\<open>NUMERIC(7, 2)\<close>),
  \<^verbatim>\<open>UNIQUE\<close> (genres.name, books.title), the composite primary key of book_genres and
  the four \<^verbatim>\<open>REFERENCES\<close> clauses. A value is converted to its column's type before the
  row is formed, so a conversion error leaves the store and the sequences as they were.
  Two things are taken for granted: the identifiers a \<^verbatim>\<open>SERIAL\<close> column draws from its
  sequence are fresh and within \<^verbatim>\<open>INTEGER\<close>, and the arguments have the types the source
  annotates (a \<^verbatim>\<open>str\<close> is the list of its characters, a \<^verbatim>\<open>float\<close> is finite).
\<close>

subsection \<open>Instants\<close>

text \<open>
  A \<^verbatim>\<open>datetime\<close> is the number of microseconds on the time line; PostgreSQL's
  \<^verbatim>\<open>TIMESTAMP\<close> has the same resolution and holds every \<^verbatim>\<open>datetime\<close> of Python.
  \<^verbatim>\<open>replace(microsecond=0)\<close> clears the microsecond field, which is the remainder modulo
  one second.
\<close>

type_synonym datetime = int

definition replace_microsecond_0 :: "datetime \<Rightarrow> datetime" where
  "replace_microsecond_0 t = t - t mod 1000000"

subsection \<open>Rows, tables and the store\<close>

record author_row =
  a_id :: int
  a_first_name :: string
  a_last_name :: string
  a_avatar :: "string option"

record genre_row =
  g_id :: int
  g_name :: string

record book_row =
  b_id :: int
  b_title :: string
  b_price :: rat
  b_pages :: int
  b_author_id :: int

record book_genre_row =
  bg_book_id :: int
  bg_genre_id :: int

record booking_row =
  bk_user_id :: int
  bk_book_id :: int
  bk_start_date :: datetime
  bk_end_date :: datetime

record database =
  authors :: "author_row list"
  genres_table :: "genre_row list"
  books :: "book_row list"
  book_genres :: "book_genre_row list"
  bookings :: "booking_row list"
  authors_id_seq :: int
  genres_id_seq :: int
  books_id_seq :: int

text \<open>The dataclass of src/app/app_model.py.\<close>

record BookModel =
  first_name :: string
  last_name :: string
  avatar :: "string option"
  genres :: "string list"
  title :: string
  price :: rat
  pages :: int

text \<open>
  The exceptions the modelled code raises. \<^verbatim>\<open>AttributeError\<close> is what
  \<^verbatim>\<open>self.connection.cursor()\<close> raises while \<^verbatim>\<open>self.connection\<close> is \<^verbatim>\<open>None\<close> (before
  \<^verbatim>\<open>connect\<close>, or after a \<^verbatim>\<open>connect\<close> that failed and only printed), and
  \<^verbatim>\<open>InterfaceError\<close> what it raises on a connection that \<^verbatim>\<open>close\<close> has closed;
  \<^verbatim>\<open>OperationalError\<close> is a \<^verbatim>\<open>psycopg2.connect\<close> that fails. The others are psycopg2's
  errors for a value outside its column's numeric type, a string longer than its
  \<^verbatim>\<open>VARCHAR\<close>, a violated \<^verbatim>\<open>UNIQUE\<close>/\<^verbatim>\<open>PRIMARY KEY\<close> and a violated \<^verbatim>\<open>REFERENCES\<close>.
\<close>

datatype exc =
    AttributeError | InterfaceError | OperationalError
  | NumericValueOutOfRange | StringDataRightTruncation
  | UniqueViolation | ForeignKeyViolation

subsection \<open>Column types\<close>

text \<open>\<^verbatim>\<open>INTEGER\<close> (user_id and book_id of bookings, lines 72-73) and \<^verbatim>\<open>SMALLINT\<close> (pages of
  books, line 61): a value outside the range is rejected.\<close>

definition in_integer :: "int \<Rightarrow> bool" where
  "in_integer i = (- 2147483648 \<le> i \<and> i \<le> 2147483647)"

definition in_smallint :: "int \<Rightarrow> bool" where
  "in_smallint i = (- 32768 \<le> i \<and> i \<le> 32767)"

text \<open>\<^verbatim>\<open>VARCHAR(n)\<close> (lines 47, 48, 54, 59): a string of more than \<open>n\<close> characters is
  rejected, unless the characters past the first \<open>n\<close> are all spaces: then it is cut to
  \<open>n\<close> characters.\<close>

definition varchar :: "nat \<Rightarrow> string \<Rightarrow> exc + string" where
  "varchar n s =
     (if length s \<le> n then Inr s
      else if list_all (\<lambda>c. c = CHR '' '') (drop n s) then Inr (take n s)
      else Inl StringDataRightTruncation)"

text \<open>\<^verbatim>\<open>NUMERIC(7, 2)\<close> (price of books, line 60): the value is rounded to two decimal
  places, a tie away from zero, and rejected when the rounded value needs more than five
  digits before the point.\<close>

definition numeric_7_2 :: "rat \<Rightarrow> exc + rat" where
  "numeric_7_2 x =
     (let r = (if 0 \<le> x then of_int (round (x * 100)) / 100
               else - (of_int (round (- x * 100)) / 100))
      in if \<bar>r\<bar> < 100000 then Inr r else Inl NumericValueOutOfRange)"

subsection \<open>The statements\<close>

text \<open>Lines 87-90: \<^verbatim>\<open>SELECT id FROM authors WHERE first_name = %s AND last_name = %s\<close>, \<^verbatim>\<open>fetchone\<close>.\<close>

definition select_author_id :: "database \<Rightarrow> string \<Rightarrow> string \<Rightarrow> int option" where
  "select_author_id db fname lname =
     (case filter (\<lambda>a. a_first_name a = fname \<and> a_last_name a = lname) (authors db) of
        [] \<Rightarrow> None
      | a # _ \<Rightarrow> Some (a_id a))"

text \<open>Lines 92-96: \<^verbatim>\<open>INSERT INTO authors ... RETURNING id\<close>; both names are
  \<^verbatim>\<open>VARCHAR(50)\<close>. The table has no constraint between rows.\<close>

definition insert_author :: "database \<Rightarrow> string \<Rightarrow> string \<Rightarrow> string option \<Rightarrow> database \<times> (exc + int)" where
  "insert_author db fname lname av =
     (case varchar 50 fname of
        Inl e \<Rightarrow> (db, Inl e)
      | Inr fname' \<Rightarrow>
          (case varchar 50 lname of
             Inl e \<Rightarrow> (db, Inl e)
           | Inr lname' \<Rightarrow>
               (let i = authors_id_seq db in
                (db\<lparr>authors := authors db @
                      [\<lparr>a_id = i, a_first_name = fname', a_last_name = lname', a_avatar = av\<rparr>],
                    authors_id_seq := i + 1\<rparr>, Inr i))))"

text \<open>Lines 103-106: \<^verbatim>\<open>SELECT id FROM genres WHERE name = %s\<close>, \<^verbatim>\<open>fetchone\<close>.\<close>

definition select_genre_id :: "database \<Rightarrow> string \<Rightarrow> int option" where
  "select_genre_id db n =
     (case filter (\<lambda>g. g_name g = n) (genres_table db) of
        [] \<Rightarrow> None
      | g # _ \<Rightarrow> Some (g_id g))"

text \<open>Lines 108-111: \<^verbatim>\<open>INSERT INTO genres (name) ... RETURNING id\<close>; the name is
  \<^verbatim>\<open>VARCHAR(32)\<close> and \<^verbatim>\<open>UNIQUE\<close>. A sequence value drawn by an insert that the
  \<^verbatim>\<open>UNIQUE\<close> constraint rejects is not given back.\<close>

definition insert_genre :: "database \<Rightarrow> string \<Rightarrow> database \<times> (exc + int)" where
  "insert_genre db n =
     (case varchar 32 n of
        Inl e \<Rightarrow> (db, Inl e)
      | Inr n' \<Rightarrow>
          (let i = genres_id_seq db; db1 = db\<lparr>genres_id_seq := i + 1\<rparr> in
           if list_ex (\<lambda>g. g_name g = n') (genres_table db) then (db1, Inl UniqueViolation)
           else (db1\<lparr>genres_table := genres_table db @ [\<lparr>g_id = i, g_name = n'\<rparr>]\<rparr>, Inr i)))"

text \<open>Lines 117-121: \<^verbatim>\<open>INSERT INTO books ... RETURNING id\<close>. The title is
  \<^verbatim>\<open>VARCHAR(255)\<close>, the price \<^verbatim>\<open>NUMERIC(7, 2)\<close>, the pages \<^verbatim>\<open>SMALLINT\<close>; the title is
  \<^verbatim>\<open>UNIQUE\<close> (checked when the row is inserted) and the author is referenced (checked at
  the end of the statement).\<close>

definition insert_book :: "database \<Rightarrow> string \<Rightarrow> rat \<Rightarrow> int \<Rightarrow> int \<Rightarrow> database \<times> (exc + int)" where
  "insert_book db t p n aid =
     (case varchar 255 t of
        Inl e \<Rightarrow> (db, Inl e)
      | Inr t' \<Rightarrow>
          (case numeric_7_2 p of
             Inl e \<Rightarrow> (db, Inl e)
           | Inr p' \<Rightarrow>
               if \<not> in_smallint n then (db, Inl NumericValueOutOfRange)
               else
                 (let i = books_id_seq db; db1 = db\<lparr>books_id_seq := i + 1\<rparr> in
                  if list_ex (\<lambda>b. b_title b = t') (books db) then (db1, Inl UniqueViolation)
                  else if \<not> list_ex (\<lambda>a. a_id a = aid) (authors db)
                  then (db1, Inl ForeignKeyViolation)
                  else (db1\<lparr>books := books db @
                          [\<lparr>b_id = i, b_title = t', b_price = p', b_pages = n, b_author_id = aid\<rparr>]\<rparr>,
                        Inr i))))"

text \<open>Lines 125-128: \<^verbatim>\<open>INSERT INTO book_genres (book_id, genre_id)\<close>; the pair is the
  primary key and both columns are references.\<close>

definition insert_book_genre :: "database \<Rightarrow> int \<Rightarrow> int \<Rightarrow> database \<times> (exc + unit)" where
  "insert_book_genre db bid gid =
     (if list_ex (\<lambda>bg. bg_book_id bg = bid \<and> bg_genre_id bg = gid) (book_genres db)
      then (db, Inl UniqueViolation)
      else if \<not> list_ex (\<lambda>b. b_id b = bid) (books db) \<or> \<not> list_ex (\<lambda>g. g_id g = gid) (genres_table db)
      then (db, Inl ForeignKeyViolation)
      else (db\<lparr>book_genres := book_genres db @ [\<lparr>bg_book_id = bid, bg_genre_id = gid\<rparr>]\<rparr>, Inr ()))"

text \<open>
  Lines 136-139: the two \<^verbatim>\<open>DELETE\<close> statements of \<^verbatim>\<open>remove_book\<close> are sent in one
  \<^verbatim>\<open>execute\<close>, which PostgreSQL runs as one transaction: when the second is rejected the
  first is undone. \<^verbatim>\<open>bookings.book_id REFERENCES books(id)\<close> (line 73) has no
  \<^verbatim>\<open>ON DELETE\<close> action, so deleting a book row that a booking references is rejected.
  The result is \<^verbatim>\<open>cursor.rowcount\<close>: the rows the last statement deleted.
\<close>

definition delete_book :: "database \<Rightarrow> int \<Rightarrow> database \<times> (exc + nat)" where
  "delete_book db bid =
     (let deleted = filter (\<lambda>b. b_id b = bid) (books db) in
      if deleted \<noteq> [] \<and> list_ex (\<lambda>bk. bk_book_id bk = bid) (bookings db)
      then (db, Inl ForeignKeyViolation)
      else (db\<lparr>book_genres := filter (\<lambda>bg. bg_book_id bg \<noteq> bid) (book_genres db),
               books := filter (\<lambda>b. b_id b \<noteq> bid) (books db)\<rparr>, Inr (length deleted)))"

text \<open>Lines 206-213: \<^verbatim>\<open>SELECT COUNT(*) FROM bookings WHERE book_id = %s AND
  (start_date < %s AND %s < end_date)\<close>.\<close>

definition count_bookings :: "database \<Rightarrow> int \<Rightarrow> datetime \<Rightarrow> nat" where
  "count_bookings db bid start =
     length (filter (\<lambda>bk. bk_book_id bk = bid \<and> bk_start_date bk < start \<and> start < bk_end_date bk)
               (bookings db))"

text \<open>Lines 225-229: \<^verbatim>\<open>INSERT INTO bookings\<close>; user_id and book_id are \<^verbatim>\<open>INTEGER\<close>
  and the book is referenced.\<close>

definition insert_booking :: "database \<Rightarrow> int \<Rightarrow> int \<Rightarrow> datetime \<Rightarrow> datetime \<Rightarrow> database \<times> (exc + unit)" where
  "insert_booking db uid bid start_date end_date =
     (if \<not> in_integer uid \<or> \<not> in_integer bid then (db, Inl NumericValueOutOfRange)
      else if \<not> list_ex (\<lambda>b. b_id b = bid) (books db) then (db, Inl ForeignKeyViolation)
      else (db\<lparr>bookings := bookings db @
              [\<lparr>bk_user_id = uid, bk_book_id = bid, bk_start_date = start_date, bk_end_date = end_date\<rparr>]\<rparr>,
            Inr ()))"

text \<open>Lines 241-245: \<^verbatim>\<open>DELETE FROM bookings WHERE book_id = %s AND user_id = %s\<close>.\<close>

definition delete_bookings :: "database \<Rightarrow> int \<Rightarrow> int \<Rightarrow> database" where
  "delete_bookings db bid uid =
     db\<lparr>bookings := filter (\<lambda>bk. \<not> (bk_book_id bk = bid \<and> bk_user_id bk = uid)) (bookings db)\<rparr>"

text \<open>Lines 254-257: \<^verbatim>\<open>DELETE FROM bookings WHERE end_date < %s\<close>.\<close>

definition delete_expired :: "database \<Rightarrow> datetime \<Rightarrow> database" where
  "delete_expired db now = db\<lparr>bookings := filter (\<lambda>bk. \<not> bk_end_date bk < now) (bookings db)\<rparr>"

text \<open>Lines 266-274: the bookings joined with their book and its author, \<^verbatim>\<open>WHERE
  bookings.end_date >= %s\<close>.\<close>

definition select_active_bookings :: "database \<Rightarrow> datetime \<Rightarrow> (int \<times> datetime \<times> datetime) list" where
  "select_active_bookings db now =
     [(bk_book_id bk, bk_start_date bk, bk_end_date bk).
        bk \<leftarrow> bookings db, b \<leftarrow> books db, bk_book_id bk = b_id b,
        a \<leftarrow> authors db, b_author_id b = a_id a, now \<le> bk_end_date bk]"

subsection \<open>The filtered query\<close>

text \<open>
  The values \<^verbatim>\<open>min_price\<close> and \<^verbatim>\<open>max_price\<close> can hold: \<^verbatim>\<open>None\<close>, an \<^verbatim>\<open>int\<close>, a
  finite \<^verbatim>\<open>float\<close> (by the decimal psycopg2 sends for it), or an object that is neither,
  a \<^verbatim>\<open>str\<close>. (\<^verbatim>\<open>bool\<close>, which Python counts as an \<^verbatim>\<open>int\<close>, is left out.)
\<close>

datatype pyval = PyNone | PyInt int | PyFloat rat | PyStr string

text \<open>\<^verbatim>\<open>x is not None and isinstance(x, (int, float))\<close>, with the number to compare with.\<close>

fun number_of :: "pyval \<Rightarrow> rat option" where
  "number_of (PyInt i) = Some (of_int i)"
| "number_of (PyFloat r) = Some r"
| "number_of PyNone = None"
| "number_of (PyStr s) = None"

text \<open>The truth value of a \<^verbatim>\<open>str\<close> parameter whose default is \<^verbatim>\<open>None\<close>.\<close>

fun truthy :: "string option \<Rightarrow> bool" where
  "truthy None = False"
| "truthy (Some s) = (s \<noteq> [])"

text \<open>One \<^verbatim>\<open>AND\<close> clause of the query, with its parameter.\<close>

datatype clause =
  PriceGe rat | PriceLe rat | FirstNameEq string | LastNameEq string | GenreNameEq string

text \<open>Lines 161-181: the clauses in the order the source appends them.\<close>

definition filter_clauses ::
  "pyval \<Rightarrow> pyval \<Rightarrow> string option \<Rightarrow> string option \<Rightarrow> string option \<Rightarrow> clause list" where
  "filter_clauses min_price max_price genre_name author_first_name author_last_name =
     (case number_of min_price of Some x \<Rightarrow> [PriceGe x] | None \<Rightarrow> []) @
     (case number_of max_price of Some x \<Rightarrow> [PriceLe x] | None \<Rightarrow> []) @
     (if truthy author_first_name then [FirstNameEq (the author_first_name)] else []) @
     (if truthy author_last_name then [LastNameEq (the author_last_name)] else []) @
     (if truthy genre_name then [GenreNameEq (the genre_name)] else [])"

fun clause_holds :: "book_row \<Rightarrow> genre_row \<Rightarrow> author_row \<Rightarrow> clause \<Rightarrow> bool" where
  "clause_holds b g a (PriceGe x) = (x \<le> b_price b)"
| "clause_holds b g a (PriceLe x) = (b_price b \<le> x)"
| "clause_holds b g a (FirstNameEq s) = (a_first_name a = s)"
| "clause_holds b g a (LastNameEq s) = (a_last_name a = s)"
| "clause_holds b g a (GenreNameEq s) = (g_name g = s)"

text \<open>Lines 154-160: \<^verbatim>\<open>books JOIN book_genres JOIN genres JOIN authors\<close>.\<close>

definition joined_rows :: "database \<Rightarrow> (book_row \<times> genre_row \<times> author_row) list" where
  "joined_rows db =
     [(b, g, a).
        b \<leftarrow> books db, bg \<leftarrow> book_genres db, b_id b = bg_book_id bg,
        g \<leftarrow> genres_table db, bg_genre_id bg = g_id g,
        a \<leftarrow> authors db, b_author_id b = a_id a]"

text \<open>The columns the query selects, after the identifier: title, price, pages and the
  author's names.\<close>

type_synonym book_info = "string \<times> rat \<times> int \<times> string \<times> string"

definition select_books :: "database \<Rightarrow> clause list \<Rightarrow> (int \<times> book_info) list" where
  "select_books db cs =
     [(b_id b, b_title b, b_price b, b_pages b, a_first_name a, a_last_name a).
        (b, g, a) \<leftarrow> joined_rows db, list_all (clause_holds b g a) cs]"

text \<open>Lines 186-195: the dictionary the rows are stored into, key by key; a key met again
  keeps its place and takes the new value, as in a Python \<^verbatim>\<open>dict\<close>.\<close>

definition books_list_of :: "(int \<times> book_info) list \<Rightarrow> (int \<times> book_info) list" where
  "books_list_of rows = foldl (\<lambda>d (k, v). AList.update k v d) [] rows"


subsection \<open>The manager and its methods\<close>

text \<open>
  What the methods print, one constructor per \<^verbatim>\<open>print\<close> call of the modelled methods
  (the source's texts are Russian); an error message carries the exception it formats.
\<close>

datatype message =
    ConnectionEstablished       \<comment> \<open>line 30\<close>
  | ConnectError exc            \<comment> \<open>line 32\<close>
  | ConnectionClosed            \<comment> \<open>line 38\<close>
  | BookWriteError exc          \<comment> \<open>line 130\<close>
  | BookNotFound                \<comment> \<open>line 142: no book has this id\<close>
  | BookDeleted                 \<comment> \<open>line 144\<close>
  | BookDeleteError exc         \<comment> \<open>line 146\<close>
  | BookFilterError exc         \<comment> \<open>line 197\<close>
  | BookingCheckError exc       \<comment> \<open>line 216\<close>
  | BookBooked                  \<comment> \<open>line 230\<close>
  | BookAlreadyBooked           \<comment> \<open>line 233: error, the book is already booked for this time\<close>
  | BookingCreateError exc      \<comment> \<open>line 235\<close>
  | BookingCancelled            \<comment> \<open>line 246: the booking was cancelled successfully\<close>
  | BookingCancelError exc      \<comment> \<open>line 248\<close>
  | BookingExpiryError exc      \<comment> \<open>line 259\<close>
  | ActiveBookingsError exc     \<comment> \<open>line 277\<close>

text \<open>
  A psycopg2 connection object is open or closed, and reaches the store of its server.
  \<^verbatim>\<open>self.connection\<close> is such an object or \<^verbatim>\<open>None\<close> (line 18).
\<close>

datatype pg_connection = Open database | Closed database

record manager =
  connection :: "pg_connection option"
  stdout :: "message list"

definition print :: "manager \<Rightarrow> message \<Rightarrow> manager" where
  "print m msg = m\<lparr>stdout := stdout m @ [msg]\<rparr>"

text \<open>Lines 20-32; \<open>server\<close> is the store \<^verbatim>\<open>psycopg2.connect\<close> reaches, or \<open>None\<close> when
  it raises.\<close>

definition connect :: "manager \<Rightarrow> database option \<Rightarrow> manager" where
  "connect m server =
     (case server of
        None \<Rightarrow> print m (ConnectError OperationalError)
      | Some db \<Rightarrow> print (m\<lparr>connection := Some (Open db)\<rparr>) ConnectionEstablished)"

text \<open>Lines 34-38; a connection object counts as true in the \<^verbatim>\<open>if\<close>, and closing a
  closed connection does nothing.\<close>

definition close :: "manager \<Rightarrow> manager" where
  "close m =
     (case connection m of
        None \<Rightarrow> m
      | Some (Open db) \<Rightarrow> print (m\<lparr>connection := Some (Closed db)\<rparr>) ConnectionClosed
      | Some (Closed db) \<Rightarrow> print m ConnectionClosed)"

text \<open>\<^verbatim>\<open>self.connection.cursor()\<close>, the first step of every \<^verbatim>\<open>try\<close> body: the store the
  cursor works on, or the exception raised.\<close>

definition cursor :: "manager \<Rightarrow> exc + database" where
  "cursor m =
     (case connection m of
        None \<Rightarrow> Inl AttributeError
      | Some (Closed db) \<Rightarrow> Inl InterfaceError
      | Some (Open db) \<Rightarrow> Inr db)"

text \<open>Lines 86-98 of \<^verbatim>\<open>add_book\<close>: the author is looked up by the two names and inserted
  when no row has them.\<close>

definition resolve_author :: "database \<Rightarrow> string \<Rightarrow> string \<Rightarrow> string option \<Rightarrow> database \<times> (exc + int)" where
  "resolve_author db fname lname av =
     (case select_author_id db fname lname of
        None \<Rightarrow> insert_author db fname lname av
      | Some i \<Rightarrow> (db, Inr i))"

text \<open>Lines 101-114: the loop over \<^verbatim>\<open>book.genres\<close>, with \<^verbatim>\<open>genre_ids\<close> as accumulator.\<close>

fun resolve_genres :: "database \<Rightarrow> int list \<Rightarrow> string list \<Rightarrow> database \<times> (exc + int list)" where
  "resolve_genres db genre_ids [] = (db, Inr genre_ids)"
| "resolve_genres db genre_ids (genre # rest) =
     (case select_genre_id db genre of
        None \<Rightarrow>
          (case insert_genre db genre of
             (db1, Inl e) \<Rightarrow> (db1, Inl e)
           | (db1, Inr genre_id) \<Rightarrow> resolve_genres db1 (genre_ids @ [genre_id]) rest)
      | Some genre_id \<Rightarrow> resolve_genres db (genre_ids @ [genre_id]) rest)"

text \<open>Lines 124-128: the loop over \<^verbatim>\<open>genre_ids\<close>.\<close>

fun insert_book_genres :: "database \<Rightarrow> int \<Rightarrow> int list \<Rightarrow> database \<times> (exc + unit)" where
  "insert_book_genres db book_id [] = (db, Inr ())"
| "insert_book_genres db book_id (genre_id # rest) =
     (case insert_book_genre db book_id genre_id of
        (db1, Inl e) \<Rightarrow> (db1, Inl e)
      | (db1, Inr _) \<Rightarrow> insert_book_genres db1 book_id rest)"

text \<open>Lines 86-128: the statements of \<^verbatim>\<open>add_book\<close> on the cursor's store.\<close>

definition add_book_body :: "database \<Rightarrow> BookModel \<Rightarrow> database \<times> (exc + unit)" where
  "add_book_body db book =
     (case resolve_author db (first_name book) (last_name book) (avatar book) of
        (db1, Inl e) \<Rightarrow> (db1, Inl e)
      | (db1, Inr author_id) \<Rightarrow>
          (case resolve_genres db1 [] (genres book) of
             (db2, Inl e) \<Rightarrow> (db2, Inl e)
           | (db2, Inr genre_ids) \<Rightarrow>
               (case insert_book db2 (title book) (price book) (pages book) author_id of
                  (db3, Inl e) \<Rightarrow> (db3, Inl e)
                | (db3, Inr book_id) \<Rightarrow> insert_book_genres db3 book_id genre_ids)))"


text \<open>Lines 132-146.\<close>

definition remove_book :: "manager \<Rightarrow> int \<Rightarrow> manager \<times> unit" where
  "remove_book m book_id =
     (case cursor m of
        Inl e \<Rightarrow> (print m (BookDeleteError e), ())
      | Inr db \<Rightarrow>
          (case delete_book db book_id of
             (db', Inl e) \<Rightarrow> (print (m\<lparr>connection := Some (Open db')\<rparr>) (BookDeleteError e), ())
           | (db', Inr books_deleted) \<Rightarrow>
               if books_deleted = 0
               then (print (m\<lparr>connection := Some (Open db')\<rparr>) BookNotFound, ())
               else (print (m\<lparr>connection := Some (Open db')\<rparr>) BookDeleted, ())))"

text \<open>Lines 250-259 (\<^verbatim>\<open>_checking_booking_date\<close>): the expiry sweep; \<open>now\<close> is what
  \<^verbatim>\<open>datetime.now()\<close> returns.\<close>

definition checking_booking_date :: "manager \<Rightarrow> datetime \<Rightarrow> manager" where
  "checking_booking_date m now =
     (case cursor m of
        Inl e \<Rightarrow> print m (BookingExpiryError e)
      | Inr db \<Rightarrow> m\<lparr>connection := Some (Open (delete_expired db now))\<rparr>)"

text \<open>Lines 148-197; the result is \<^verbatim>\<open>None\<close> when the \<^verbatim>\<open>except\<close> branch ran.\<close>

definition get_books_filtered ::
  "manager \<Rightarrow> datetime \<Rightarrow> pyval \<Rightarrow> pyval \<Rightarrow> string option \<Rightarrow> string option \<Rightarrow> string option
     \<Rightarrow> manager \<times> (int \<times> book_info) list option" where
  "get_books_filtered m now min_price max_price genre_name author_first_name author_last_name =
     (let m1 = checking_booking_date m now;
          query = filter_clauses min_price max_price genre_name author_first_name author_last_name
      in case cursor m1 of
           Inl e \<Rightarrow> (print m1 (BookFilterError e), None)
         | Inr db \<Rightarrow> (m1, Some (books_list_of (select_books db query))))"

text \<open>Lines 199-216 (\<^verbatim>\<open>_is_available_bookings\<close>).\<close>

definition is_available_bookings :: "manager \<Rightarrow> datetime \<Rightarrow> int \<Rightarrow> datetime \<Rightarrow> manager \<times> bool option" where
  "is_available_bookings m now book_id start_date =
     (let m1 = checking_booking_date m now
      in case cursor m1 of
           Inl e \<Rightarrow> (print m1 (BookingCheckError e), None)
         | Inr db \<Rightarrow> (m1, Some (count_bookings db book_id start_date = 0)))"

text \<open>Lines 218-235; \<^verbatim>\<open>None\<close> from the availability check counts as false in the \<^verbatim>\<open>if\<close>.\<close>

definition add_booking :: "manager \<Rightarrow> datetime \<Rightarrow> int \<Rightarrow> int \<Rightarrow> datetime \<Rightarrow> datetime \<Rightarrow> manager \<times> unit" where
  "add_booking m now user_id book_id start_date end_date =
     (let start_date = replace_microsecond_0 start_date;
          end_date = replace_microsecond_0 end_date
      in case is_available_bookings m now book_id start_date of
           (m1, Some True) \<Rightarrow>
             (case cursor m1 of
                Inl e \<Rightarrow> (print m1 (BookingCreateError e), ())
              | Inr db \<Rightarrow>
                  (case insert_booking db user_id book_id start_date end_date of
                     (db', Inl e) \<Rightarrow>
                       (print (m1\<lparr>connection := Some (Open db')\<rparr>) (BookingCreateError e), ())
                   | (db', Inr _) \<Rightarrow> (print (m1\<lparr>connection := Some (Open db')\<rparr>) BookBooked, ())))
         | (m1, _) \<Rightarrow> (print m1 BookAlreadyBooked, ()))"

text \<open>Lines 237-248; the parameter the source calls \<^verbatim>\<open>booking_id\<close> is compared with the
  \<^verbatim>\<open>book_id\<close> column.\<close>

definition cancel_booking :: "manager \<Rightarrow> int \<Rightarrow> int \<Rightarrow> manager \<times> unit" where
  "cancel_booking m user_id booking_id =
     (case cursor m of
        Inl e \<Rightarrow> (print m (BookingCancelError e), ())
      | Inr db \<Rightarrow>
          (print (m\<lparr>connection := Some (Open (delete_bookings db booking_id user_id))\<rparr>)
             BookingCancelled, ()))"

text \<open>Lines 261-277; \<open>now\<close> and \<open>now'\<close> are the two readings of the clock, in the sweep and
  in the query.\<close>

definition get_active_bookings ::
  "manager \<Rightarrow> datetime \<Rightarrow> datetime \<Rightarrow> manager \<times> (int \<times> datetime \<times> datetime) list option" where
  "get_active_bookings m now now' =
     (let m1 = checking_booking_date m now
      in case cursor m1 of
           Inl e \<Rightarrow> (print m1 (ActiveBookingsError e), None)
         | Inr db \<Rightarrow> (m1, Some (select_active_bookings db now')))"

subsection \<open>Sequences of calls, and the relation the ledger keeps\<close>

text \<open>A sequence of \<^verbatim>\<open>add_booking\<close> calls, each with the clock reading of its sweep.\<close>

fun add_bookings :: "manager \<Rightarrow> (datetime \<times> int \<times> int \<times> datetime \<times> datetime) list \<Rightarrow> manager" where
  "add_bookings m [] = m"
| "add_bookings m ((now, user_id, book_id, start_date, end_date) # calls) =
     add_bookings (fst (add_booking m now user_id book_id start_date end_date)) calls"

text \<open>\<open>starts_inside a b\<close>: booking \<open>b\<close> is for the book of \<open>a\<close> and starts strictly inside
  the interval of \<open>a\<close>.\<close>

definition starts_inside :: "booking_row \<Rightarrow> booking_row \<Rightarrow> bool" where
  "starts_inside a b =
     (bk_book_id a = bk_book_id b \<and> bk_start_date a < bk_start_date b \<and> bk_start_date b < bk_end_date a)"

text \<open>No booking of the list starts inside a booking that stands before it in the list
  (the table is kept in insertion order).\<close>

definition no_later_start_inside :: "booking_row list \<Rightarrow> bool" where
  "no_later_start_inside bks = sorted_wrt (\<lambda>a b. \<not> starts_inside a b) bks"

subsection \<open>A small library\<close>

text \<open>
  The store after \<^verbatim>\<open>create_tables\<close>, and a library with one author, one genre and two
  books: book 5 has the genre, book 4 has no genre row (as after \<^verbatim>\<open>add_book\<close> with an
  empty genre list). Instants are written in microseconds.
\<close>

definition empty_database :: database where
  "empty_database =
     \<lparr>authors = [], genres_table = [], books = [], book_genres = [], bookings = [],
      authors_id_seq = 1, genres_id_seq = 1, books_id_seq = 1\<rparr>"

definition library :: database where
  "library =
     \<lparr>authors = [\<lparr>a_id = 1, a_first_name = ''Jane'', a_last_name = ''Doe'', a_avatar = None\<rparr>],
      genres_table = [\<lparr>g_id = 1, g_name = ''SF''\<rparr>],
      books = [\<lparr>b_id = 4, b_title = ''Emma'', b_price = 10, b_pages = 300, b_author_id = 1\<rparr>,
               \<lparr>b_id = 5, b_title = ''Dune'', b_price = 12, b_pages = 400, b_author_id = 1\<rparr>],
      book_genres = [\<lparr>bg_book_id = 5, bg_genre_id = 1\<rparr>],
      bookings = [],
      authors_id_seq = 2, genres_id_seq = 2, books_id_seq = 6\<rparr>"

definition booking_5_15 :: booking_row where
  "booking_5_15 = \<lparr>bk_user_id = 1, bk_book_id = 5, bk_start_date = 5000000, bk_end_date = 15000000\<rparr>"

definition booking_0_12 :: booking_row where
  "booking_0_12 = \<lparr>bk_user_id = 2, bk_book_id = 5, bk_start_date = 0, bk_end_date = 12000000\<rparr>"

definition booking_10_5 :: booking_row where
  "booking_10_5 = \<lparr>bk_user_id = 1, bk_book_id = 5, bk_start_date = 10000000, bk_end_date = 5000000\<rparr>"

definition opened :: "database \<Rightarrow> manager" where
  "opened db = \<lparr>connection = Some (Open db), stdout = []\<rparr>"

definition dune_again :: BookModel where
  "dune_again = \<lparr>first_name = ''Jane'', last_name = ''Doe'', avatar = Some ''jpg'', genres = [''SF''],
                  title = ''Dune'', price = 15, pages = 400\<rparr>"

definition persuasion :: BookModel where
  "persuasion = \<lparr>first_name = ''Jane'', last_name = ''Doe'', avatar = Some ''png'', genres = [''SF''],
                  title = ''Persuasion'', price = 8, pages = 250\<rparr>"

text \<open>A first name of fifty letters and a space, and a book by an author of that name.\<close>

definition long_name :: string where
  "long_name = ''Aaaaaaaaaaaaaaaaaaaaaaaaaaaaaaaaaaaaaaaaaaaaaaaaaa ''"

definition long_name_book :: "string \<Rightarrow> BookModel" where
  "long_name_book t = \<lparr>first_name = long_name, last_name = ''Doe'', avatar = None, genres = [],
                       title = t, price = 8, pages = 250\<rparr>"

section \<open>Properties\<close>

subsection \<open>What the methods do on an open connection\<close>

lemma connection_print [simp]: "connection (print m msg) = connection m"
  by (simp add: print_def)

lemma stdout_print [simp]: "stdout (print m msg) = stdout m @ [msg]"
  by (simp add: print_def)

lemma cursor_print [simp]: "cursor (print m msg) = cursor m"
  by (simp add: cursor_def)

lemma cursor_stdout_update [simp]: "cursor (m\<lparr>stdout := out\<rparr>) = cursor m"
  by (simp add: cursor_def)

lemma cursor_open: "connection m = Some (Open db) \<Longrightarrow> cursor m = Inr db"
  by (simp add: cursor_def)

lemma cursor_reopened [simp]: "cursor (m\<lparr>connection := Some (Open db)\<rparr>) = Inr db"
  by (simp add: cursor_def)


lemma reconnect_same [simp]: "connection m = Some c \<Longrightarrow> m\<lparr>connection := Some c\<rparr> = m"
  by (cases m) simp

lemma checking_booking_date_open:
  "connection m = Some (Open db) \<Longrightarrow>
   checking_booking_date m now = m\<lparr>connection := Some (Open (delete_expired db now))\<rparr>"
  by (simp add: checking_booking_date_def cursor_open)

lemma is_available_bookings_open:
  "connection m = Some (Open db) \<Longrightarrow>
   is_available_bookings m now bid s =
     (m\<lparr>connection := Some (Open (delete_expired db now))\<rparr>,
      Some (count_bookings (delete_expired db now) bid s = 0))"
  by (simp add: is_available_bookings_def checking_booking_date_open)

lemma count_bookings_0:
  "(count_bookings db bid s = 0) =
   (\<not> (\<exists>bk\<in>set (bookings db). bk_book_id bk = bid \<and> bk_start_date bk < s \<and> s < bk_end_date bk))"
  by (auto simp: count_bookings_def filter_empty_conv)

lemma bookings_delete_expired:
  "bookings (delete_expired db now) = filter (\<lambda>bk. \<not> bk_end_date bk < now) (bookings db)"
  by (simp add: delete_expired_def)

lemma books_delete_expired [simp]: "books (delete_expired db now) = books db"
  by (simp add: delete_expired_def)

lemma add_booking_open:
  "connection m = Some (Open db) \<Longrightarrow>
   fst (add_booking m now uid bid s e) =
     (let db1 = delete_expired db now; s' = replace_microsecond_0 s; e' = replace_microsecond_0 e in
      if count_bookings db1 bid s' = 0 then
        (if \<not> in_integer uid \<or> \<not> in_integer bid
         then print (m\<lparr>connection := Some (Open db1)\<rparr>) (BookingCreateError NumericValueOutOfRange)
         else if list_ex (\<lambda>b. b_id b = bid) (books db)
         then print (m\<lparr>connection := Some (Open (db1\<lparr>bookings := bookings db1 @
                  [\<lparr>bk_user_id = uid, bk_book_id = bid, bk_start_date = s', bk_end_date = e'\<rparr>]\<rparr>))\<rparr>)
                BookBooked
         else print (m\<lparr>connection := Some (Open db1)\<rparr>) (BookingCreateError ForeignKeyViolation))
      else print (m\<lparr>connection := Some (Open db1)\<rparr>) BookAlreadyBooked)"
  by (simp add: add_booking_def is_available_bookings_open insert_booking_def Let_def)

subsection \<open>The availability check\<close>

text \<open>
  C1. On an open connection, for every book id, candidate start instant and state of the
  bookings table: the intervals the availability check is run against are the rows its
  count query reads, which are the stored bookings that the expiry sweep at the head of
  the check leaves in place. The check reports a conflict (\<open>False\<close>) iff some such
  interval of that book has \<open>start < candidate start\<close> and \<open>candidate start < end\<close>, and
  reports available (\<open>True\<close>) otherwise; when no stored booking has expired these are all
  the stored rows. Only the candidate's start instant is tested.
\<close>

theorem is_available_bookings_rule:
  "connection m = Some (Open db) \<Longrightarrow>
   snd (is_available_bookings m now bid s) =
     Some (\<not> (\<exists>bk\<in>set (bookings (delete_expired db now)).
                 bk_book_id bk = bid \<and> bk_start_date bk < s \<and> s < bk_end_date bk)) \<and>
   ((\<forall>bk\<in>set (bookings db). now \<le> bk_end_date bk) \<longrightarrow>
    snd (is_available_bookings m now bid s) =
      Some (\<not> (\<exists>bk\<in>set (bookings db).
                  bk_book_id bk = bid \<and> bk_start_date bk < s \<and> s < bk_end_date bk)))"
proof -
  assume "connection m = Some (Open db)"
  then have swept: "snd (is_available_bookings m now bid s) =
     Some (\<not> (\<exists>bk\<in>set (bookings (delete_expired db now)).
                 bk_book_id bk = bid \<and> bk_start_date bk < s \<and> s < bk_end_date bk))"
    by (simp add: is_available_bookings_open count_bookings_0)
  have "bookings (delete_expired db now) = bookings db"
    if "\<forall>bk\<in>set (bookings db). now \<le> bk_end_date bk"
    using that by (simp add: bookings_delete_expired filter_id_conv not_less)
  with swept show ?thesis by simp
qed

text \<open>With the booking from second 5 to second 15 stored for book 5 and not expired: a
  candidate from second 0 to second 12 is accepted, since only its start is tested, and
  a candidate from second 10 to second 20 is not.\<close>

theorem is_available_bookings_rule_witness:
  "snd (is_available_bookings (opened (library\<lparr>bookings := [booking_5_15]\<rparr>)) 0 5 0) = Some True \<and>
   snd (is_available_bookings (opened (library\<lparr>bookings := [booking_5_15]\<rparr>)) 0 5 10000000)
     = Some False"
  using is_available_bookings_rule [of "opened (library\<lparr>bookings := [booking_5_15]\<rparr>)"
          "library\<lparr>bookings := [booking_5_15]\<rparr>" 0 5 0]
        is_available_bookings_rule [of "opened (library\<lparr>bookings := [booking_5_15]\<rparr>)"
          "library\<lparr>bookings := [booking_5_15]\<rparr>" 0 5 10000000]
  by (simp add: opened_def booking_5_15_def delete_expired_def)

subsection \<open>What successful bookings leave in the ledger\<close>

lemma add_booking_keeps_order:
  assumes "connection m = Some (Open db)" and "no_later_start_inside (bookings db)"
  shows "\<exists>db'. connection (fst (add_booking m now uid bid s e)) = Some (Open db') \<and>
           no_later_start_inside (bookings db')"
proof -
  let ?db1 = "delete_expired db now"
  let ?s = "replace_microsecond_0 s"
  let ?new = "\<lparr>bk_user_id = uid, bk_book_id = bid, bk_start_date = ?s,
               bk_end_date = replace_microsecond_0 e\<rparr>"
  have kept: "no_later_start_inside (bookings ?db1)"
    using assms(2) by (simp add: no_later_start_inside_def bookings_delete_expired sorted_wrt_filter)
  show ?thesis
  proof (cases "count_bookings ?db1 bid ?s = 0 \<and> in_integer uid \<and> in_integer bid \<and>
                list_ex (\<lambda>b. b_id b = bid) (books db)")
    case True
    then have "\<forall>bk\<in>set (bookings ?db1). \<not> starts_inside bk ?new"
      by (auto simp: count_bookings_0 starts_inside_def)
    with kept have "no_later_start_inside (bookings ?db1 @ [?new])"
      by (simp add: no_later_start_inside_def sorted_wrt_append)
    with True assms(1) show ?thesis
      by (simp add: add_booking_open Let_def)
  next
    case False
    with kept assms(1) show ?thesis
      by (auto simp: add_booking_open Let_def)
  qed
qed

text \<open>
  C2 (as amended). Starting from a ledger in which no booking starts strictly inside a
  booking of the same book stored before it (the empty ledger is one), every sequence of
  \<^verbatim>\<open>add_booking\<close> calls leaves such a ledger: no stored interval \<open>b\<close> that was inserted
  after a stored interval \<open>a\<close> of the same book has \<open>a.start < b.start < a.end\<close>. Nothing
  is said of a pair in which \<open>a\<close> was inserted after \<open>b\<close>.
\<close>

theorem add_bookings_keep_insertion_order_rule:
  "connection m = Some (Open db) \<Longrightarrow> no_later_start_inside (bookings db) \<Longrightarrow>
   \<exists>db'. connection (add_bookings m calls) = Some (Open db') \<and> no_later_start_inside (bookings db')"
proof (induction calls arbitrary: m db)
  case Nil
  then show ?case by simp
next
  case (Cons c calls)
  obtain now uid bid s e where c: "c = (now, uid, bid, s, e)"
    by (cases c) auto
  from add_booking_keeps_order [OF Cons.prems, of now uid bid s e]
  obtain db1 where "connection (fst (add_booking m now uid bid s e)) = Some (Open db1)"
    and "no_later_start_inside (bookings db1)" by blast
  from Cons.IH [OF this] show ?case by (simp add: c)
qed

theorem add_bookings_keep_insertion_order_rule_witness:
  "connection (add_bookings (opened library) [(0, 1, 5, 5000000, 15000000), (0, 2, 5, 0, 12000000)])
     = Some (Open (library\<lparr>bookings := [booking_5_15, booking_0_12]\<rparr>)) \<and>
   no_later_start_inside [booking_5_15, booking_0_12]"
  using add_bookings_keep_insertion_order_rule [of "opened library" library
          "[(0, 1, 5, 5000000, 15000000), (0, 2, 5, 0, 12000000)]"]
  by (simp add: opened_def library_def booking_5_15_def booking_0_12_def no_later_start_inside_def
        add_booking_def is_available_bookings_def checking_booking_date_def delete_expired_def
        count_bookings_def insert_booking_def replace_microsecond_0_def print_def starts_inside_def
        cursor_def in_integer_def)

text \<open>C2 as stated fails: on book 5 the booking from second 5 to second 15 and then the
  booking from second 0 to second 12 are both accepted and stored, and the first starts
  strictly inside the second.\<close>

theorem later_booking_around_earlier_start_counterexample:
  "add_bookings (opened library) [(0, 1, 5, 5000000, 15000000), (0, 2, 5, 0, 12000000)]
     = \<lparr>connection = Some (Open (library\<lparr>bookings := [booking_5_15, booking_0_12]\<rparr>)),
        stdout = [BookBooked, BookBooked]\<rparr> \<and>
   bk_book_id booking_0_12 = bk_book_id booking_5_15 \<and>
   bk_start_date booking_0_12 < bk_start_date booking_5_15 \<and>
   bk_start_date booking_5_15 < bk_end_date booking_0_12"
  by (simp add: opened_def library_def booking_5_15_def booking_0_12_def
        add_booking_def is_available_bookings_def checking_booking_date_def delete_expired_def
        count_bookings_def insert_booking_def replace_microsecond_0_def print_def
        cursor_def in_integer_def)

subsection \<open>Intervals that end before they start\<close>

text \<open>
  C3 (as amended). \<^verbatim>\<open>add_booking\<close> never compares the start with the end. On an open
  connection it truncates both instants to whole seconds and, whenever the user id and
  the book id fit \<^verbatim>\<open>INTEGER\<close>, the book exists and the availability check of the truncated
  start passes, it stores the booking and prints the success message, whatever the order
  of start and end.
\<close>

theorem add_booking_stores_any_interval:
  "connection m = Some (Open db) \<Longrightarrow> in_integer uid \<Longrightarrow> in_integer bid \<Longrightarrow>
   list_ex (\<lambda>b. b_id b = bid) (books db) \<Longrightarrow>
   count_bookings (delete_expired db now) bid (replace_microsecond_0 s) = 0 \<Longrightarrow>
   fst (add_booking m now uid bid s e) =
     print (m\<lparr>connection := Some (Open (delete_expired db now
              \<lparr>bookings := bookings (delete_expired db now) @
                 [\<lparr>bk_user_id = uid, bk_book_id = bid, bk_start_date = replace_microsecond_0 s,
                   bk_end_date = replace_microsecond_0 e\<rparr>]\<rparr>))\<rparr>) BookBooked"
  by (simp add: add_booking_open Let_def)

theorem add_booking_stores_any_interval_witness:
  "fst (add_booking (opened library) 0 1 5 10000001 5000002) =
     \<lparr>connection = Some (Open (library\<lparr>bookings := [booking_10_5]\<rparr>)), stdout = [BookBooked]\<rparr>"
  using add_booking_stores_any_interval [of "opened library" library 1 5 0 10000001 5000002]
  by (simp add: opened_def library_def booking_10_5_def delete_expired_def count_bookings_def
        replace_microsecond_0_def print_def in_integer_def)

text \<open>C3 as stated fails: the booking of book 5 from second 10 to second 5 is stored.\<close>

theorem start_after_end_counterexample:
  "bk_end_date booking_10_5 \<le> bk_start_date booking_10_5 \<and>
   add_booking (opened library) 0 1 5 10000000 5000000 =
     (\<lparr>connection = Some (Open (library\<lparr>bookings := [booking_10_5]\<rparr>)), stdout = [BookBooked]\<rparr>, ())"
  by (simp add: opened_def library_def booking_10_5_def
        add_booking_def is_available_bookings_def checking_booking_date_def delete_expired_def
        count_bookings_def insert_booking_def replace_microsecond_0_def print_def
        cursor_def in_integer_def)

subsection \<open>The expiry sweep\<close>

text \<open>
  C4. On an open connection, for every state of the bookings table and every instant
  \<open>now\<close>: the expiry sweep deletes exactly the bookings whose end is strictly before
  \<open>now\<close> (the rows it keeps are the others, in order, and no other table changes); the
  listing of active bookings and the availability check both run the sweep first and
  read the swept table; so a stored booking whose end is before \<open>now\<close> is absent from
  the listing, and the availability check counts only conflicting bookings that have not
  expired.
\<close>

theorem expiry_sweep_before_reads:
  "connection m = Some (Open db) \<Longrightarrow>
   checking_booking_date m now =
     m\<lparr>connection := Some (Open (db\<lparr>bookings := filter (\<lambda>bk. \<not> bk_end_date bk < now) (bookings db)\<rparr>))\<rparr> \<and>
   get_active_bookings m now now' =
     (checking_booking_date m now, Some (select_active_bookings (delete_expired db now) now')) \<and>
   is_available_bookings m now bid s =
     (checking_booking_date m now, Some (count_bookings (delete_expired db now) bid s = 0)) \<and>
   (\<forall>bk\<in>set (bookings db). bk_end_date bk < now \<longrightarrow>
      (\<forall>rows. snd (get_active_bookings m now now') = Some rows \<longrightarrow>
         (bk_book_id bk, bk_start_date bk, bk_end_date bk) \<notin> set rows)) \<and>
   count_bookings (delete_expired db now) bid s =
     length (filter (\<lambda>bk. \<not> bk_end_date bk < now \<and> bk_book_id bk = bid \<and>
                          bk_start_date bk < s \<and> s < bk_end_date bk) (bookings db))"
  by (auto simp: checking_booking_date_def get_active_bookings_def is_available_bookings_def
        delete_expired_def select_active_bookings_def count_bookings_def cursor_def)

text \<open>The booking of book 5 from second 5 to second 15: listed at instant 0; at second 20
  it is swept, not listed, and no obstacle to a booking that starts at second 10.\<close>

theorem expiry_sweep_before_reads_witness:
  "checking_booking_date (opened (library\<lparr>bookings := [booking_5_15]\<rparr>)) 20000000 = opened library \<and>
   snd (get_active_bookings (opened (library\<lparr>bookings := [booking_5_15]\<rparr>)) 20000000 20000001)
     = Some [] \<and>
   snd (is_available_bookings (opened (library\<lparr>bookings := [booking_5_15]\<rparr>)) 20000000 5 10000000)
     = Some True \<and>
   snd (get_active_bookings (opened (library\<lparr>bookings := [booking_5_15]\<rparr>)) 0 1)
     = Some [(5, 5000000, 15000000)]"
  using expiry_sweep_before_reads [of "opened (library\<lparr>bookings := [booking_5_15]\<rparr>)"
          "library\<lparr>bookings := [booking_5_15]\<rparr>" 20000000 20000001 5 10000000]
  by (simp add: opened_def library_def booking_5_15_def get_active_bookings_def
        checking_booking_date_def delete_expired_def select_active_bookings_def
        is_available_bookings_def count_bookings_def cursor_def)

subsection \<open>What the statements of \<^verbatim>\<open>add_book\<close> leave alone\<close>

lemma varchar_fits: "length s \<le> n \<Longrightarrow> varchar n s = Inr s"
  by (simp add: varchar_def)



lemma insert_genre_frame:
  "authors (fst (insert_genre db n)) = authors db \<and>
   books (fst (insert_genre db n)) = books db \<and>
   book_genres (fst (insert_genre db n)) = book_genres db"
  by (simp add: insert_genre_def Let_def split: sum.splits)

lemma resolve_genres_frame:
  "authors (fst (resolve_genres db ids gs)) = authors db \<and>
   books (fst (resolve_genres db ids gs)) = books db \<and>
   book_genres (fst (resolve_genres db ids gs)) = book_genres db"
proof (induction gs arbitrary: db ids)
  case Nil
  then show ?case by simp
next
  case (Cons g gs)
  show ?case
  proof (cases "select_genre_id db g")
    case None
    obtain db1 r where ins: "insert_genre db g = (db1, r)" by (cases "insert_genre db g")
    then have "authors db1 = authors db \<and> books db1 = books db \<and> book_genres db1 = book_genres db"
      using insert_genre_frame [of db g] by simp
    with None ins Cons.IH [of db1] show ?thesis
      by (cases r) simp_all
  next
    case (Some i)
    with Cons.IH show ?thesis by simp
  qed
qed

lemma insert_book_frame:
  "authors (fst (insert_book db t p n aid)) = authors db \<and>
   book_genres (fst (insert_book db t p n aid)) = book_genres db"
  by (simp add: insert_book_def Let_def split: sum.splits)

lemma insert_book_genre_frame:
  "authors (fst (insert_book_genre db bid gid)) = authors db \<and>
   books (fst (insert_book_genre db bid gid)) = books db"
  by (simp add: insert_book_genre_def)

lemma insert_book_genres_frame:
  "authors (fst (insert_book_genres db bid gids)) = authors db \<and>
   books (fst (insert_book_genres db bid gids)) = books db"
proof (induction gids arbitrary: db)
  case Nil
  then show ?case by simp
next
  case (Cons gid gids)
  obtain db1 r where ins: "insert_book_genre db bid gid = (db1, r)"
    by (cases "insert_book_genre db bid gid")
  then have "authors db1 = authors db \<and> books db1 = books db"
    using insert_book_genre_frame [of db bid gid] by simp
  with ins Cons.IH [of db1] show ?case
    by (cases r) simp_all
qed





subsection \<open>Failures of the store\<close>




subsection \<open>Cancelling\<close>

text \<open>
  C6 (as amended). On an open connection, for every (user, book) pair,
  \<^verbatim>\<open>cancel_booking\<close> deletes all bookings of exactly that pair, whatever their interval,
  prints the same success message however many rows it removed and returns \<^verbatim>\<open>None\<close>: no
  count reaches the caller. A second identical call removes nothing more and prints the
  success message again; it is not an error.
\<close>

theorem cancel_booking_effect:
  "connection m = Some (Open db) \<Longrightarrow>
   cancel_booking m uid bid =
     (print (m\<lparr>connection := Some (Open (db\<lparr>bookings :=
         filter (\<lambda>bk. \<not> (bk_book_id bk = bid \<and> bk_user_id bk = uid)) (bookings db)\<rparr>))\<rparr>)
        BookingCancelled, ()) \<and>
   cancel_booking (fst (cancel_booking m uid bid)) uid bid =
     (print (fst (cancel_booking m uid bid)) BookingCancelled, ())"
  by (simp add: cancel_booking_def delete_bookings_def cursor_open)

theorem cancel_booking_effect_witness:
  "cancel_booking (opened (library\<lparr>bookings := [booking_5_15, booking_0_12]\<rparr>)) 1 5 =
     (\<lparr>connection = Some (Open (library\<lparr>bookings := [booking_0_12]\<rparr>)),
       stdout = [BookingCancelled]\<rparr>, ())"
  using cancel_booking_effect [of "opened (library\<lparr>bookings := [booking_5_15, booking_0_12]\<rparr>)"
          "library\<lparr>bookings := [booking_5_15, booking_0_12]\<rparr>" 1 5]
  by (simp add: opened_def library_def booking_5_15_def booking_0_12_def print_def)

text \<open>C6 as stated fails: a call that removes one booking and a call that removes none
  return and print the same.\<close>

theorem cancel_reports_no_count_counterexample:
  "bookings library = [] \<and>
   cancel_booking (opened (library\<lparr>bookings := [booking_5_15]\<rparr>)) 1 5 =
     (\<lparr>connection = Some (Open library), stdout = [BookingCancelled]\<rparr>, ()) \<and>
   cancel_booking (opened library) 1 5 =
     (\<lparr>connection = Some (Open library), stdout = [BookingCancelled]\<rparr>, ())"
  by (simp add: opened_def library_def booking_5_15_def cancel_booking_def delete_bookings_def
        print_def cursor_def)

subsection \<open>Removing a book\<close>

text \<open>
  C7 (as amended). On an open connection, for every book id, \<^verbatim>\<open>remove_book\<close> leaves
  every row of the bookings table unchanged. When a book row with that id exists and a
  booking references it, the store rejects the deletion (\<^verbatim>\<open>bookings.book_id REFERENCES
  books(id)\<close>): nothing is deleted and the error message is printed. Otherwise the book's
  genre-join rows and the book row are deleted, and the not-found message is printed
  when no book row had that id, distinct from the success message printed when one had.
\<close>

theorem remove_book_effect:
  "connection m = Some (Open db) \<Longrightarrow>
   fst (remove_book m bid) =
     (if list_ex (\<lambda>b. b_id b = bid) (books db) \<and> list_ex (\<lambda>bk. bk_book_id bk = bid) (bookings db)
      then print m (BookDeleteError ForeignKeyViolation)
      else print (m\<lparr>connection := Some (Open
                    (db\<lparr>book_genres := filter (\<lambda>bg. bg_book_id bg \<noteq> bid) (book_genres db),
                        books := filter (\<lambda>b. b_id b \<noteq> bid) (books db)\<rparr>))\<rparr>)
             (if list_ex (\<lambda>b. b_id b = bid) (books db) then BookDeleted else BookNotFound)) \<and>
   (\<exists>db'. connection (fst (remove_book m bid)) = Some (Open db') \<and> bookings db' = bookings db)"
  by (auto simp: remove_book_def delete_book_def Let_def list_ex_iff filter_empty_conv cursor_open)

theorem remove_book_effect_witness:
  "fst (remove_book (opened library) 5) =
     \<lparr>connection = Some (Open (library\<lparr>book_genres := [],
         books := [\<lparr>b_id = 4, b_title = ''Emma'', b_price = 10, b_pages = 300, b_author_id = 1\<rparr>]\<rparr>)),
       stdout = [BookDeleted]\<rparr> \<and>
   fst (remove_book (opened library) 9) = \<lparr>connection = Some (Open library), stdout = [BookNotFound]\<rparr>"
  using remove_book_effect [of "opened library" library 5]
    remove_book_effect [of "opened library" library 9]
  by (simp add: opened_def library_def print_def)

text \<open>C7 as stated fails: with a booking of book 5 in the ledger, removing book 5 deletes
  neither its genre-join row nor the book row.\<close>

theorem booked_book_is_not_removed_counterexample:
  "remove_book (opened (library\<lparr>bookings := [booking_5_15]\<rparr>)) 5 =
     (\<lparr>connection = Some (Open (library\<lparr>bookings := [booking_5_15]\<rparr>)),
       stdout = [BookDeleteError ForeignKeyViolation]\<rparr>, ()) \<and>
   book_genres library = [\<lparr>bg_book_id = 5, bg_genre_id = 1\<rparr>]"
  by (simp add: opened_def library_def booking_5_15_def remove_book_def delete_book_def print_def
        cursor_def)

subsection \<open>The filtered query\<close>

lemma set_joined_rows:
  "set (joined_rows db) =
     {(b, g, a). b \<in> set (books db) \<and> g \<in> set (genres_table db) \<and> a \<in> set (authors db) \<and>
        (\<exists>bg\<in>set (book_genres db). b_id b = bg_book_id bg \<and> bg_genre_id bg = g_id g) \<and>
        b_author_id b = a_id a}"
  by (auto simp: joined_rows_def)

lemma joined_rows_delete_expired [simp]: "joined_rows (delete_expired db now) = joined_rows db"
  by (simp add: joined_rows_def delete_expired_def cong: if_cong)

lemma select_books_delete_expired [simp]:
  "select_books (delete_expired db now) cs = select_books db cs"
  by (simp add: select_books_def)

lemma keys_foldl_update:
  "fst ` set (foldl (\<lambda>d (k, v). AList.update k v d) d0 rows) = fst ` set d0 \<union> fst ` set rows"
  by (induction rows arbitrary: d0) (simp_all add: AList.dom_update case_prod_beta)

lemma distinct_foldl_update:
  "distinct (map fst d0) \<Longrightarrow> distinct (map fst (foldl (\<lambda>d (k, v). AList.update k v d) d0 rows))"
  by (induction rows arbitrary: d0) (simp_all add: AList.distinct_update case_prod_beta)

lemma set_update_subset: "set (AList.update k v al) \<subseteq> insert (k, v) (set al)"
  by (induction al) auto

lemma set_foldl_update:
  "set (foldl (\<lambda>d (k, v). AList.update k v d) d0 rows) \<subseteq> set d0 \<union> set rows"
proof (induction rows arbitrary: d0)
  case Nil
  then show ?case by simp
next
  case (Cons r rows)
  have step: "(\<lambda>d (k, v). AList.update k v d) d0 r = AList.update (fst r) (snd r) d0"
    by (simp add: case_prod_beta)
  have "set (foldl (\<lambda>d (k, v). AList.update k v d) (AList.update (fst r) (snd r) d0) rows)
          \<subseteq> set (AList.update (fst r) (snd r) d0) \<union> set rows"
    by (rule Cons.IH)
  with set_update_subset [of "fst r" "snd r" d0] show ?case
    unfolding foldl_Cons step by auto
qed

lemma keys_books_list_of: "fst ` set (books_list_of rows) = fst ` set rows"
  by (simp add: books_list_of_def keys_foldl_update)

lemma distinct_books_list_of: "distinct (map fst (books_list_of rows))"
  by (simp add: books_list_of_def distinct_foldl_update)

lemma set_books_list_of: "set (books_list_of rows) \<subseteq> set rows"
  using set_foldl_update [of "[]" rows] by (simp add: books_list_of_def)

lemma filter_clauses_hold:
  "list_all (clause_holds b g a) (filter_clauses mn mx gn afn aln) =
     ((\<forall>x. number_of mn = Some x \<longrightarrow> x \<le> b_price b) \<and>
      (\<forall>x. number_of mx = Some x \<longrightarrow> b_price b \<le> x) \<and>
      (truthy afn \<longrightarrow> a_first_name a = the afn) \<and>
      (truthy aln \<longrightarrow> a_last_name a = the aln) \<and>
      (truthy gn \<longrightarrow> g_name g = the gn))"
  by (auto simp: filter_clauses_def split: option.splits)

lemma keys_select_books:
  "fst ` set (select_books db cs) =
     {i. \<exists>(b, g, a)\<in>set (joined_rows db). b_id b = i \<and> list_all (clause_holds b g a) cs}"
  by (force simp: select_books_def)

lemma set_select_books:
  "(i, t, p, n, afn, aln) \<in> set (select_books db cs) \<Longrightarrow>
   \<exists>b\<in>set (books db). \<exists>a\<in>set (authors db).
     b_id b = i \<and> b_author_id b = a_id a \<and> t = b_title b \<and> p = b_price b \<and> n = b_pages b \<and>
     afn = a_first_name a \<and> aln = a_last_name a"
  by (auto simp: select_books_def joined_rows_def split: if_splits)

text \<open>
  C8 (as amended). A price filter counts as supplied when it is an \<^verbatim>\<open>int\<close> or a
  \<^verbatim>\<open>float\<close>, a name filter when it is a string that is not empty. On an open connection,
  for every combination of filters, \<^verbatim>\<open>get_books_filtered\<close> returns a dictionary with one
  entry per book id, for exactly the books that have a genre-join row to a genre, and
  an author, such that all the supplied filters hold together (price at least the
  minimum, at most the maximum, that genre's name, the author's first and last name);
  the entry holds the title, price and pages of a book row with that id and the names of
  its author. A book with no genre-join row is in no result, whatever the filters.
\<close>

theorem get_books_filtered_result:
  "connection m = Some (Open db) \<Longrightarrow>
   \<exists>d. snd (get_books_filtered m now mn mx gn afn aln) = Some d \<and>
     distinct (map fst d) \<and>
     fst ` set d =
       {i. \<exists>b\<in>set (books db). \<exists>bg\<in>set (book_genres db). \<exists>g\<in>set (genres_table db).
             \<exists>a\<in>set (authors db).
               b_id b = i \<and> bg_book_id bg = i \<and> bg_genre_id bg = g_id g \<and> b_author_id b = a_id a \<and>
               (\<forall>x. number_of mn = Some x \<longrightarrow> x \<le> b_price b) \<and>
               (\<forall>x. number_of mx = Some x \<longrightarrow> b_price b \<le> x) \<and>
               (truthy gn \<longrightarrow> g_name g = the gn) \<and>
               (truthy afn \<longrightarrow> a_first_name a = the afn) \<and>
               (truthy aln \<longrightarrow> a_last_name a = the aln)} \<and>
     (\<forall>i t p n fname lname. (i, t, p, n, fname, lname) \<in> set d \<longrightarrow>
        (\<exists>b\<in>set (books db). \<exists>a\<in>set (authors db).
           b_id b = i \<and> b_author_id b = a_id a \<and> t = b_title b \<and> p = b_price b \<and>
           n = b_pages b \<and> fname = a_first_name a \<and> lname = a_last_name a)) \<and>
     (\<forall>i. \<not> list_ex (\<lambda>bg. bg_book_id bg = i) (book_genres db) \<longrightarrow> i \<notin> fst ` set d)"
proof -
  let ?cs = "filter_clauses mn mx gn afn aln"
  let ?d = "books_list_of (select_books db ?cs)"
  assume "connection m = Some (Open db)"
  then have res: "snd (get_books_filtered m now mn mx gn afn aln) = Some ?d"
    by (simp add: get_books_filtered_def checking_booking_date_def Let_def cursor_open)
  have keys: "fst ` set ?d =
       {i. \<exists>b\<in>set (books db). \<exists>bg\<in>set (book_genres db). \<exists>g\<in>set (genres_table db).
             \<exists>a\<in>set (authors db).
               b_id b = i \<and> bg_book_id bg = i \<and> bg_genre_id bg = g_id g \<and> b_author_id b = a_id a \<and>
               (\<forall>x. number_of mn = Some x \<longrightarrow> x \<le> b_price b) \<and>
               (\<forall>x. number_of mx = Some x \<longrightarrow> b_price b \<le> x) \<and>
               (truthy gn \<longrightarrow> g_name g = the gn) \<and>
               (truthy afn \<longrightarrow> a_first_name a = the afn) \<and>
               (truthy aln \<longrightarrow> a_last_name a = the aln)}"
    unfolding keys_books_list_of keys_select_books set_joined_rows filter_clauses_hold
    by (auto; metis)
  have vals: "\<forall>i t p n fname lname. (i, t, p, n, fname, lname) \<in> set ?d \<longrightarrow>
        (\<exists>b\<in>set (books db). \<exists>a\<in>set (authors db).
           b_id b = i \<and> b_author_id b = a_id a \<and> t = b_title b \<and> p = b_price b \<and>
           n = b_pages b \<and> fname = a_first_name a \<and> lname = a_last_name a)"
    using set_books_list_of [of "select_books db ?cs"] set_select_books [of _ _ _ _ _ _ db ?cs]
    by blast
  have nogenre: "\<forall>i. \<not> list_ex (\<lambda>bg. bg_book_id bg = i) (book_genres db) \<longrightarrow> i \<notin> fst ` set ?d"
    unfolding keys by (auto simp: list_ex_iff)
  from res keys vals nogenre distinct_books_list_of [of "select_books db ?cs"] show ?thesis
    by blast
qed

text \<open>In the library: minimum price 10 with genre SF gives book 5; no filter gives book 5
  and not book 4, which has no genre row; minimum price 20 gives the empty dictionary.\<close>

theorem get_books_filtered_result_witness:
  "snd (get_books_filtered (opened library) 0 (PyInt 10) PyNone (Some ''SF'') None None)
     = Some [(5, ''Dune'', 12, 400, ''Jane'', ''Doe'')] \<and>
   snd (get_books_filtered (opened library) 0 PyNone PyNone None None None)
     = Some [(5, ''Dune'', 12, 400, ''Jane'', ''Doe'')] \<and>
   snd (get_books_filtered (opened library) 0 (PyInt 20) PyNone None None None) = Some []"
  using get_books_filtered_result [of "opened library" library 0 "PyInt 10" PyNone "Some ''SF''" None None]
    get_books_filtered_result [of "opened library" library 0 PyNone PyNone None None None]
  by (simp add: opened_def library_def get_books_filtered_def checking_booking_date_def cursor_def
        delete_expired_def filter_clauses_def select_books_def joined_rows_def books_list_of_def)

text \<open>C8 as stated fails for a genre name supplied as the empty string: no genre of the
  library has that name, and the query returns book 5.\<close>

theorem empty_genre_name_counterexample:
  "\<not> list_ex (\<lambda>g. g_name g = '''') (genres_table library) \<and>
   snd (get_books_filtered (opened library) 0 PyNone PyNone (Some '''') None None)
     = Some [(5, ''Dune'', 12, 400, ''Jane'', ''Doe'')]"
  by (simp add: opened_def library_def get_books_filtered_def checking_booking_date_def cursor_def
        delete_expired_def filter_clauses_def select_books_def joined_rows_def books_list_of_def)

text \<open>
  C10. For every call of \<^verbatim>\<open>get_books_filtered\<close> in which \<^verbatim>\<open>min_price\<close> or \<^verbatim>\<open>max_price\<close>
  is a value that is neither \<^verbatim>\<open>None\<close> nor an \<^verbatim>\<open>int\<close> nor a \<^verbatim>\<open>float\<close> (here a string), the
  call does what the call with \<^verbatim>\<open>None\<close> in its place does: the same result, the same
  store and the same output. On an open connection nothing is printed and the result is
  the dictionary of the query without a price clause.
\<close>

theorem non_numeric_price_is_omitted:
  "get_books_filtered m now (PyStr x) mx gn afn aln = get_books_filtered m now PyNone mx gn afn aln \<and>
   get_books_filtered m now mn (PyStr x) gn afn aln = get_books_filtered m now mn PyNone gn afn aln \<and>
   (connection m = Some (Open db) \<longrightarrow>
      stdout (fst (get_books_filtered m now (PyStr x) (PyStr y) gn afn aln)) = stdout m \<and>
      snd (get_books_filtered m now (PyStr x) (PyStr y) gn afn aln) =
        Some (books_list_of (select_books db (filter_clauses PyNone PyNone gn afn aln))))"
  by (simp add: get_books_filtered_def filter_clauses_def checking_booking_date_def Let_def cursor_open)

text \<open>In the library the minimum price 20 given as a string does not exclude book 5, whose
  price is 12; given as a number it does.\<close>

theorem non_numeric_price_is_omitted_witness:
  "snd (get_books_filtered (opened library) 0 (PyStr ''20'') (PyStr ''1'') None None None)
     = Some [(5, ''Dune'', 12, 400, ''Jane'', ''Doe'')] \<and>
   stdout (fst (get_books_filtered (opened library) 0 (PyStr ''20'') (PyStr ''1'') None None None)) = [] \<and>
   snd (get_books_filtered (opened library) 0 (PyInt 20) PyNone None None None) = Some []"
  using non_numeric_price_is_omitted [where m = "opened library" and now = 0 and x = "''20''"
          and y = "''1''" and gn = None and afn = None and aln = None and db = library]
  by (simp add: opened_def library_def get_books_filtered_def checking_booking_date_def cursor_def
        delete_expired_def filter_clauses_def select_books_def joined_rows_def books_list_of_def)

subsection \<open>Resolving the author\<close>

lemma select_after_resolve:
  "length f \<le> 50 \<Longrightarrow> length l \<le> 50 \<Longrightarrow>
   \<exists>i. snd (resolve_author db f l av) = Inr i \<and>
       select_author_id (fst (resolve_author db f l av)) f l = Some i"
  by (auto simp: resolve_author_def select_author_id_def insert_author_def varchar_fits Let_def
        split: option.splits list.splits)

lemma resolve_author_again:
  assumes "length f \<le> 50" and "length l \<le> 50"
    and "authors db' = authors (fst (resolve_author db f l av))"
  shows "\<exists>i. snd (resolve_author db f l av) = Inr i \<and> resolve_author db' f l av' = (db', Inr i)"
proof -
  from select_after_resolve [OF assms(1,2), of db av]
  obtain i where i: "snd (resolve_author db f l av) = Inr i"
    and "select_author_id (fst (resolve_author db f l av)) f l = Some i" by blast
  moreover have "select_author_id db' f l = select_author_id (fst (resolve_author db f l av)) f l"
    by (simp add: select_author_id_def assms(3))
  ultimately have "resolve_author db' f l av' = (db', Inr i)"
    by (simp add: resolve_author_def)
  with i show ?thesis by blast
qed

lemma authors_add_book_body:
  "authors (fst (add_book_body db book)) =
   authors (fst (resolve_author db (first_name book) (last_name book) (avatar book)))"
proof -
  obtain db1 r1 where 1: "resolve_author db (first_name book) (last_name book) (avatar book) = (db1, r1)"
    by (cases "resolve_author db (first_name book) (last_name book) (avatar book)")
  show ?thesis
  proof (cases r1)
    case (Inl e)
    with 1 show ?thesis by (simp add: add_book_body_def)
  next
    case aid: (Inr aid)
    obtain db2 r2 where 2: "resolve_genres db1 [] (genres book) = (db2, r2)"
      by (cases "resolve_genres db1 [] (genres book)")
    have a2: "authors db2 = authors db1"
      using resolve_genres_frame [of db1 "[]" "genres book"] 2 by simp
    show ?thesis
    proof (cases r2)
      case (Inl e)
      with 1 aid 2 a2 show ?thesis by (simp add: add_book_body_def)
    next
      case (Inr gids)
      obtain db3 r3 where 3: "insert_book db2 (title book) (price book) (pages book) aid = (db3, r3)"
        by (cases "insert_book db2 (title book) (price book) (pages book) aid")
      have a3: "authors db3 = authors db2"
        using insert_book_frame [of db2 "title book" "price book" "pages book" aid] 3 by simp
      show ?thesis
      proof (cases r3)
        case (Inl e)
        with 1 aid 2 3 a2 a3 Inr show ?thesis by (simp add: add_book_body_def)
      next
        case r: (Inr bid)
        with 1 aid 2 3 a2 a3 Inr show ?thesis
          using insert_book_genres_frame [of db3 bid gids] by (simp add: add_book_body_def)
      qed
    qed
  qed
qed

text \<open>
  C9 (as amended). For every pair of names of at most fifty characters each (the width
  of the two \<^verbatim>\<open>VARCHAR(50)\<close> columns): the resolve-or-create step of an \<^verbatim>\<open>add_book\<close>
  returns an author id; after that \<^verbatim>\<open>add_book\<close>, the step of a second \<^verbatim>\<open>add_book\<close>
  naming the same author returns the same id and changes nothing; the second
  \<^verbatim>\<open>add_book\<close> leaves the authors table as the first left it, whatever avatar it
  supplies; and the first created one author row, with its avatar, when no row had the
  two names, and none otherwise.
\<close>

theorem resolve_author_idempotent:
  "length (first_name book) \<le> 50 \<Longrightarrow> length (last_name book) \<le> 50 \<Longrightarrow>
   first_name book' = first_name book \<Longrightarrow> last_name book' = last_name book \<Longrightarrow>
   (\<exists>i. snd (resolve_author db (first_name book) (last_name book) (avatar book)) = Inr i \<and>
      resolve_author (fst (add_book_body db book)) (first_name book') (last_name book') (avatar book') =
        (fst (add_book_body db book), Inr i)) \<and>
   authors (fst (add_book_body (fst (add_book_body db book)) book')) =
     authors (fst (add_book_body db book)) \<and>
   authors (fst (add_book_body db book)) =
     (if select_author_id db (first_name book) (last_name book) = None
      then authors db @ [\<lparr>a_id = authors_id_seq db, a_first_name = first_name book,
                          a_last_name = last_name book, a_avatar = avatar book\<rparr>]
      else authors db)"
proof -
  assume len: "length (first_name book) \<le> 50" "length (last_name book) \<le> 50"
    and n: "first_name book' = first_name book" "last_name book' = last_name book"
  let ?db1 = "fst (add_book_body db book)"
  from resolve_author_again [OF len, of ?db1 db "avatar book" "avatar book'"]
  obtain i where i: "snd (resolve_author db (first_name book) (last_name book) (avatar book)) = Inr i"
    and again: "resolve_author ?db1 (first_name book) (last_name book) (avatar book') = (?db1, Inr i)"
    by (auto simp: authors_add_book_body)
  have "authors (fst (add_book_body ?db1 book')) = authors ?db1"
    by (simp add: authors_add_book_body [of ?db1] n again)
  moreover have "authors ?db1 =
     (if select_author_id db (first_name book) (last_name book) = None
      then authors db @ [\<lparr>a_id = authors_id_seq db, a_first_name = first_name book,
                          a_last_name = last_name book, a_avatar = avatar book\<rparr>]
      else authors db)"
    using len
    by (auto simp: authors_add_book_body resolve_author_def insert_author_def varchar_fits Let_def)
  ultimately show ?thesis using i again n by simp
qed

text \<open>From the empty store: Persuasion creates Jane Doe with the avatar png; then Dune,
  with the avatar jpg, resolves to the same author 1 and the stored avatar stays png.\<close>

theorem resolve_author_idempotent_witness:
  "resolve_author (fst (add_book_body empty_database persuasion)) ''Jane'' ''Doe'' (Some ''jpg'') =
     (fst (add_book_body empty_database persuasion), Inr 1) \<and>
   authors (fst (add_book_body (fst (add_book_body empty_database persuasion)) dune_again)) =
     [\<lparr>a_id = 1, a_first_name = ''Jane'', a_last_name = ''Doe'', a_avatar = Some ''png''\<rparr>]"
  using resolve_author_idempotent [of persuasion dune_again empty_database]
  by (simp add: empty_database_def dune_again_def persuasion_def add_book_body_def
        resolve_author_def select_author_id_def insert_author_def select_genre_id_def
        insert_genre_def insert_book_def insert_book_genre_def varchar_def numeric_7_2_def
        in_smallint_def)

text \<open>C9 as stated fails for a first name of fifty letters and a space: the store cuts
  the name to fifty characters, the lookup by the name as given finds no row, and two
  \<^verbatim>\<open>add_book\<close> calls naming that author resolve to the ids 1 and 2 and create two rows.\<close>

theorem padded_name_counterexample:
  "snd (resolve_author empty_database long_name ''Doe'' None) = Inr 1 \<and>
   snd (resolve_author (fst (add_book_body empty_database (long_name_book ''Emma'')))
          long_name ''Doe'' None) = Inr 2 \<and>
   map a_id (authors (fst (add_book_body (fst (add_book_body empty_database
      (long_name_book ''Emma''))) (long_name_book ''Dune'')))) = [1, 2]"
  by (simp add: empty_database_def long_name_def long_name_book_def add_book_body_def
        resolve_author_def select_author_id_def insert_author_def insert_book_def
        varchar_def numeric_7_2_def in_smallint_def)

end
